theory Spec2Isabelle
  imports Main
begin

section \<open>The auction store\<close>

text \<open>
  The bot keeps its state in four SQLite tables. A table is modelled as the list of its
  rows in insertion order, a nullable column as an option, an INTEGER column as an
  unbounded integer (Python and SQLite integers do not wrap in the ranges used here).
  The status column is TEXT; the values the handlers write or compare against are the six
  below.
\<close>

datatype status = Pending | Approved | Rejected | Sold | Ended | Cancelled

text \<open>A row of the items table (the descriptive payload columns that no handler
  modelled here reads are left out).\<close>

record item =
  item_id :: string
  user_id :: int
  username :: "string option"
  first_name :: string
  item_type :: string
  name :: "string option"
  tm_number :: "int option"
  tm_name :: "string option"
  base_price :: int
  status :: status
  highest_bid :: "int option"
  highest_bidder_id :: "int option"
  highest_bidder_name :: "string option"

text \<open>A row of the users table.\<close>

record user_row =
  u_user_id :: int
  u_username :: "string option"
  u_first_name :: string
  is_banned :: int
  submissions_count :: int
  approved_count :: int
  rejected_count :: int
  bids_count :: int

text \<open>A row of the bids table.\<close>

record bid_row =
  b_item_id :: string
  b_user_id :: int
  b_username :: "string option"
  b_first_name :: string
  b_amount :: int
  b_bid_time :: string

text \<open>The database file: the three tables and the single row of auction_state.\<close>

record db =
  items :: "item list"
  users :: "user_row list"
  bids :: "bid_row list"
  submissions_open :: bool
  bidding_open :: bool

text \<open>The Telegram user who sent the update (\<open>update.effective_user\<close>).\<close>

record tg_user =
  tg_id :: int
  tg_username :: "string option"
  tg_first_name :: string

subsection \<open>Connections and transactions\<close>

text \<open>
  A connection sees its own uncommitted writes; the database file holds what was last
  committed. \<open>commit\<close> publishes the working copy, \<open>rollback\<close> discards it, and
  closing a connection leaves the committed contents in the file.
\<close>

record conn =
  committed :: db
  working :: db

definition get_db_connection :: "db \<Rightarrow> conn" where
  "get_db_connection s = \<lparr>committed = s, working = s\<rparr>"

definition execute :: "(db \<Rightarrow> db) \<Rightarrow> conn \<Rightarrow> conn" where
  "execute stmt c = c\<lparr>working := stmt (working c)\<rparr>"

definition commit :: "conn \<Rightarrow> conn" where
  "commit c = c\<lparr>committed := working c\<rparr>"

definition rollback :: "conn \<Rightarrow> conn" where
  "rollback c = c\<lparr>working := committed c\<rparr>"

definition close :: "conn \<Rightarrow> db" where
  "close c = committed c"

section \<open>Placing a bid\<close>

text \<open>
  The replies of the \<open>bid\<close> handler, one constructor per message it can send.
  \<open>BidNotHigher p\<close> is "Your bid must be higher than the current bid of p";
  \<open>BidTooLow i m\<close> is "Minimum bid increment is i. Your bid must be at least m".
\<close>

datatype reply =
    InvalidAmount
  | BiddingClosed
  | BidderBanned
  | ItemNotBiddable
  | SelfBidForbidden
  | BidNotHigher int
  | BidTooLow int int
  | BidPlaced int
  | BidProcessingFailed

text \<open>
  What can go wrong inside the \<open>try\<close> block of \<open>bid\<close>: one of the five storage
  calls raises, or (after the commit) editing the channel message or sending the
  confirmation raises. The two notifications to the previous bidder and to the seller
  have their own \<open>try\<close>/\<open>except\<close> and never leave the block.
\<close>

datatype fault =
    NoFault
  | BeginFails
  | UpdateItemFails
  | InsertBidFails
  | UpdateUserFails
  | CommitFails
  | PostCommitFails

text \<open>\<open>SELECT is_banned FROM users WHERE user_id = ?\<close> followed by
  \<open>user_record and user_record['is_banned']\<close>: no row, or a zero flag, is not banned.\<close>

definition banned :: "db \<Rightarrow> int \<Rightarrow> bool" where
  "banned s uid =
     (case find (\<lambda>u. u_user_id u = uid) (users s) of
        None \<Rightarrow> False
      | Some r \<Rightarrow> is_banned r \<noteq> 0)"

text \<open>\<open>SELECT * FROM items WHERE item_id = ? AND status = 'approved'\<close>, first row.\<close>

definition approved_item :: "db \<Rightarrow> string \<Rightarrow> item option" where
  "approved_item s iid = find (\<lambda>i. item_id i = iid \<and> status i = Approved) (items s)"

text \<open>\<open>item['highest_bid'] if item['highest_bid'] else item['base_price']\<close>: a NULL
  and a zero highest bid are both falsy.\<close>

definition current_bid :: "item \<Rightarrow> int" where
  "current_bid it =
     (case highest_bid it of
        None \<Rightarrow> base_price it
      | Some h \<Rightarrow> if h = 0 then base_price it else h)"

definition increment :: "int \<Rightarrow> int" where
  "increment p = (if p \<ge> 50000 then 5000 else if p \<ge> 20000 then 2000 else 1000)"

text \<open>The three statements of the unit of work.\<close>

definition update_item_bid :: "string \<Rightarrow> tg_user \<Rightarrow> int \<Rightarrow> db \<Rightarrow> db" where
  "update_item_bid iid usr amt s =
     s\<lparr>items := map (\<lambda>i. if item_id i = iid
                            then i\<lparr>highest_bid := Some amt,
                                   highest_bidder_id := Some (tg_id usr),
                                   highest_bidder_name := Some (tg_first_name usr)\<rparr>
                            else i) (items s)\<rparr>"

definition insert_bid :: "string \<Rightarrow> tg_user \<Rightarrow> int \<Rightarrow> string \<Rightarrow> db \<Rightarrow> db" where
  "insert_bid iid usr amt now s =
     s\<lparr>bids := bids s @ [\<lparr>b_item_id = iid, b_user_id = tg_id usr,
                           b_username = tg_username usr, b_first_name = tg_first_name usr,
                           b_amount = amt, b_bid_time = now\<rparr>]\<rparr>"

definition bump_bids_count :: "int \<Rightarrow> db \<Rightarrow> db" where
  "bump_bids_count uid s =
     s\<lparr>users := map (\<lambda>u. if u_user_id u = uid then u\<lparr>bids_count := bids_count u + 1\<rparr> else u)
                     (users s)\<rparr>"

text \<open>
  The body of the \<open>try\<close> block. \<open>Inl c\<close> is an exception raised with the connection
  in state \<open>c\<close>; \<open>Inr c\<close> is normal completion.
\<close>

definition bid_unit :: "fault \<Rightarrow> string \<Rightarrow> tg_user \<Rightarrow> int \<Rightarrow> string \<Rightarrow> conn \<Rightarrow> conn + conn" where
  "bid_unit f iid usr amt now c0 =
     (if f = BeginFails then Inl c0
      else if f = UpdateItemFails then Inl c0
      else let c1 = execute (update_item_bid iid usr amt) c0 in
        if f = InsertBidFails then Inl c1
        else let c2 = execute (insert_bid iid usr amt now) c1 in
          if f = UpdateUserFails then Inl c2
          else let c3 = execute (bump_bids_count (tg_id usr)) c2 in
            if f = CommitFails then Inl c3
            else let c4 = commit c3 in
              if f = PostCommitFails then Inl c4 else Inr c4)"

text \<open>
  The handler \<open>bid\<close>, after \<open>context.args\<close> has been split into the upper-cased item
  id \<open>iid\<close> and the integer \<open>amt\<close> (a wrong number of arguments or a text that
  \<open>int\<close> rejects ends the handler before it reads anything). It returns the database
  file it leaves behind and the reply it sends. \<open>now\<close> is the clock reading.
\<close>

definition bid :: "fault \<Rightarrow> string \<Rightarrow> db \<Rightarrow> tg_user \<Rightarrow> string \<Rightarrow> int \<Rightarrow> db \<times> reply" where
  "bid f now s usr iid amt =
     (if amt \<le> 0 then (s, InvalidAmount)
      else if \<not> bidding_open s then (s, BiddingClosed)
      else if banned s (tg_id usr) then (s, BidderBanned)
      else (case approved_item s iid of
        None \<Rightarrow> (s, ItemNotBiddable)
      | Some it \<Rightarrow>
          if tg_id usr = user_id it then (s, SelfBidForbidden)
          else if amt \<le> current_bid it then (s, BidNotHigher (current_bid it))
          else if amt < current_bid it + increment (current_bid it)
            then (s, BidTooLow (increment (current_bid it))
                               (current_bid it + increment (current_bid it)))
          else (case bid_unit f iid usr amt now (get_db_connection s) of
              Inl c \<Rightarrow> (close (rollback c), BidProcessingFailed)
            | Inr c \<Rightarrow> (close c, BidPlaced amt))))"


subsection \<open>Sequences of bid attempts\<close>

text \<open>One call of the handler: who bids, on what, how much, and what fails meanwhile.\<close>

record attempt =
  a_fault :: fault
  a_now :: string
  a_user :: tg_user
  a_item :: string
  a_amount :: int

definition place :: "db \<Rightarrow> attempt \<Rightarrow> db \<times> reply" where
  "place s a = bid (a_fault a) (a_now a) s (a_user a) (a_item a) (a_amount a)"

text \<open>\<open>SELECT * FROM items WHERE item_id = ?\<close>: the row with that primary key.\<close>

definition item_by_id :: "db \<Rightarrow> string \<Rightarrow> item option" where
  "item_by_id s iid = find (\<lambda>i. item_id i = iid) (items s)"

definition highest_bid_of :: "db \<Rightarrow> string \<Rightarrow> int option" where
  "highest_bid_of s iid = (case item_by_id s iid of None \<Rightarrow> None | Some i \<Rightarrow> highest_bid i)"

text \<open>
  The values that the \<open>highest_bid\<close> column of item \<open>iid\<close> takes, in order, while the
  attempts run one after the other: a value is recorded each time the column changes.
\<close>

fun highest_bid_values :: "string \<Rightarrow> db \<Rightarrow> attempt list \<Rightarrow> int list" where
  "highest_bid_values iid s [] = []"
| "highest_bid_values iid s (a # as) =
     (let s' = fst (place s a) in
        (if highest_bid_of s' iid = highest_bid_of s iid then []
         else (case highest_bid_of s' iid of None \<Rightarrow> [] | Some v \<Rightarrow> [v]))
        @ highest_bid_values iid s' as)"

text \<open>The primary key of the items table: no two rows share an \<open>item_id\<close>.\<close>

definition primary_key :: "db \<Rightarrow> bool" where
  "primary_key s = distinct (map item_id (items s))"

section \<open>Submitting an item\<close>

text \<open>
  \<open>generate_item_id\<close> draws one letter with \<open>random.choice\<close> and four digits with
  \<open>random.choices\<close>. The five random indices are a parameter; \<open>random\<close> always
  returns an element of the sequence, so an index is reduced into its range.
\<close>

record draw =
  letter :: nat
  digit1 :: nat
  digit2 :: nat
  digit3 :: nat
  digit4 :: nat

definition ascii_uppercase :: string where
  "ascii_uppercase = ''ABCDEFGHIJKLMNOPQRSTUVWXYZ''"

definition digits :: string where
  "digits = ''0123456789''"

definition generate_item_id :: "draw \<Rightarrow> string" where
  "generate_item_id r =
     [ascii_uppercase ! (letter r mod 26),
      digits ! (digit1 r mod 10), digits ! (digit2 r mod 10),
      digits ! (digit3 r mod 10), digits ! (digit4 r mod 10)]"

text \<open>The part of \<open>context.user_data\<close> that the wizard has filled in.\<close>

record user_data =
  d_item_type :: string
  d_name :: string
  d_tm_number :: int
  d_tm_name :: string
  d_base_price :: int

datatype submission_reply = Submitted string | IntegrityError string

text \<open>\<open>INSERT OR IGNORE INTO users\<close>: a new row with the column defaults unless the
  user already has one.\<close>

definition insert_or_ignore_user :: "tg_user \<Rightarrow> db \<Rightarrow> db" where
  "insert_or_ignore_user usr s =
     (case find (\<lambda>u. u_user_id u = tg_id usr) (users s) of
        Some _ \<Rightarrow> s
      | None \<Rightarrow> s\<lparr>users := users s @
                   [\<lparr>u_user_id = tg_id usr, u_username = tg_username usr,
                     u_first_name = tg_first_name usr, is_banned = 0,
                     submissions_count = 0, approved_count = 0, rejected_count = 0,
                     bids_count = 0\<rparr>]\<rparr>)"

definition bump_submissions_count :: "tg_user \<Rightarrow> db \<Rightarrow> db" where
  "bump_submissions_count usr s =
     s\<lparr>users := map (\<lambda>u. if u_user_id u = tg_id usr
                            then u\<lparr>u_username := tg_username usr,
                                   u_first_name := tg_first_name usr,
                                   submissions_count := submissions_count u + 1\<rparr>
                            else u) (users s)\<rparr>"

definition new_item :: "string \<Rightarrow> tg_user \<Rightarrow> user_data \<Rightarrow> item" where
  "new_item iid usr d =
     \<lparr>item_id = iid, user_id = tg_id usr, username = tg_username usr,
      first_name = tg_first_name usr, item_type = d_item_type d,
      name = (if d_item_type d = ''pokemon'' then Some (d_name d) else None),
      tm_number = (if d_item_type d = ''pokemon'' then None else Some (d_tm_number d)),
      tm_name = (if d_item_type d = ''pokemon'' then None else Some (d_tm_name d)),
      base_price = d_base_price d, status = Pending,
      highest_bid = None, highest_bidder_id = None, highest_bidder_name = None\<rparr>"

text \<open>
  \<open>complete_submission\<close> up to its first commit. The id is generated once. The plain
  \<open>INSERT INTO items\<close> raises \<open>sqlite3.IntegrityError\<close> when the primary key is
  taken; nothing catches it, the connection is dropped without a commit, and the file
  keeps its old contents.
\<close>

definition complete_submission :: "draw \<Rightarrow> db \<Rightarrow> tg_user \<Rightarrow> user_data \<Rightarrow> db \<times> submission_reply" where
  "complete_submission r s usr d =
     (let iid = generate_item_id r;
          c1 = execute (insert_or_ignore_user usr) (get_db_connection s);
          c2 = execute (bump_submissions_count usr) c1
      in if iid \<in> set (map item_id (items (working c2)))
         then (close c2, IntegrityError iid)
         else (close (commit (execute (\<lambda>w. w\<lparr>items := items w @ [new_item iid usr d]\<rparr>) c2)),
               Submitted iid))"

section \<open>The admin decision\<close>

definition ADMIN_IDS :: "int list" where
  "ADMIN_IDS = [5816482345, 7335094257, 5858459838, 8095253829]"

definition is_admin :: "int \<Rightarrow> bool" where
  "is_admin uid = (uid \<in> set ADMIN_IDS)"

datatype decision_reply = OnlyAdmins | ItemNotFound | AlreadyDecided status | Decided status

definition admin_approval_callback :: "int \<Rightarrow> string \<Rightarrow> string \<Rightarrow> db \<Rightarrow> db \<times> decision_reply" where
  "admin_approval_callback from_user action iid s =
     (if \<not> is_admin from_user then (s, OnlyAdmins)
      else (case item_by_id s iid of
        None \<Rightarrow> (s, ItemNotFound)
      | Some it \<Rightarrow>
          if status it \<noteq> Pending then (s, AlreadyDecided (status it))
          else if action = ''approve''
          then (s\<lparr>items := map (\<lambda>i. if item_id i = iid then i\<lparr>status := Approved\<rparr> else i)
                                (items s),
                  users := map (\<lambda>u. if u_user_id u = user_id it
                                      then u\<lparr>approved_count := approved_count u + 1\<rparr> else u)
                                (users s)\<rparr>, Decided Approved)
          else (s\<lparr>items := map (\<lambda>i. if item_id i = iid then i\<lparr>status := Rejected\<rparr> else i)
                                (items s),
                  users := map (\<lambda>u. if u_user_id u = user_id it
                                      then u\<lparr>rejected_count := rejected_count u + 1\<rparr> else u)
                                (users s)\<rparr>, Decided Rejected)))"

section \<open>The phase commands\<close>

definition starto :: "db \<Rightarrow> db" where
  "starto s = s\<lparr>submissions_open := True, bidding_open := True\<rparr>"

definition submito :: "db \<Rightarrow> db" where
  "submito s = s\<lparr>submissions_open := False\<rparr>"

subsection \<open>Closing the bidding\<close>

text \<open>The six columns that the \<open>SELECT\<close> of \<open>bido\<close> fetches for each row.\<close>

record closing_row =
  r_item_id :: string
  r_user_id :: int
  r_highest_bidder_id :: "int option"
  r_highest_bid :: "int option"
  r_name :: "string option"
  r_tm_name :: "string option"

definition closing_rows :: "db \<Rightarrow> closing_row list" where
  "closing_rows s =
     map (\<lambda>i. \<lparr>r_item_id = item_id i, r_user_id = user_id i,
                r_highest_bidder_id = highest_bidder_id i, r_highest_bid = highest_bid i,
                r_name = name i, r_tm_name = tm_name i\<rparr>)
         (filter (\<lambda>i. status i = Approved \<and> highest_bidder_id i \<noteq> None) (items s))"

text \<open>Python truth of a nullable text: \<open>None\<close> and the empty string are falsy.\<close>

definition truthy :: "string option \<Rightarrow> bool" where
  "truthy x = (case x of None \<Rightarrow> False | Some t \<Rightarrow> t \<noteq> [])"

definition mark_sold :: "string \<Rightarrow> db \<Rightarrow> db" where
  "mark_sold iid s =
     s\<lparr>items := map (\<lambda>i. if item_id i = iid then i\<lparr>status := Sold\<rparr> else i) (items s)\<rparr>"

text \<open>What \<open>logger.error\<close> records inside the loop, with the item concerned.\<close>

datatype log_entry = ErrorNotifyingWinner string | ErrorNotifyingSeller string

text \<open>How the handler ends: it runs to its last line, or an exception leaves it.\<close>

datatype ending = Completed | Raised string

text \<open>
  The loop over the fetched rows. For each row:
  \<^item> \<open>name = item['name'] if item['name'] else f"TM{item['tm_number']} ..."\<close>: the
    fetched row has no \<open>tm_number\<close> column, so for a falsy name the subscript raises
    \<open>IndexError\<close>; this line is outside every \<open>try\<close>, and the exception leaves the
    handler;
  \<^item> the text of the winner's notice reads \<open>item['username']\<close>, which the row does
    not have either; this is inside the first \<open>try\<close>, so it is logged;
  \<^item> the seller's notice is sent inside the second \<open>try\<close>; \<open>seller_fails\<close> says
    for which items the transport raises;
  \<^item> the status is set to sold on a fresh connection and committed.
\<close>

fun bido_loop :: "(string \<Rightarrow> bool) \<Rightarrow> closing_row list \<Rightarrow> db \<Rightarrow> log_entry list
    \<Rightarrow> db \<times> log_entry list \<times> ending" where
  "bido_loop seller_fails [] s lg = (s, lg, Completed)"
| "bido_loop seller_fails (r # rs) s lg =
     (if \<not> truthy (r_name r) then (s, lg, Raised ''IndexError'')
      else let lg1 = lg @ [ErrorNotifyingWinner (r_item_id r)];
               lg2 = (if seller_fails (r_item_id r)
                      then lg1 @ [ErrorNotifyingSeller (r_item_id r)] else lg1)
           in bido_loop seller_fails rs (mark_sold (r_item_id r) s) lg2)"

text \<open>
  The body of \<open>bido\<close>: the flag is cleared and the rows are fetched on one
  connection, which is committed and closed before the loop starts. Two remarks on the
  source text. The call \<open>cursor.execute("UPDATE items SET status = 'sold' ...", (item['item_id'],)\<close>
  inside the loop lacks its closing parenthesis; it is read here as the complete call
  that the following \<open>conn.commit()\<close> shows it to be. The admin check is done by
  the decorator \<open>admin_command_wrapper\<close> around the handler and is not part of the
  body modelled here.
\<close>

definition bido :: "(string \<Rightarrow> bool) \<Rightarrow> db \<Rightarrow> db \<times> log_entry list \<times> ending" where
  "bido seller_fails s =
     (let c = execute (\<lambda>w. w\<lparr>bidding_open := False\<rparr>) (get_db_connection s);
          rows = closing_rows (working c);
          s0 = close (commit c)
      in bido_loop seller_fails rows s0 [])"

section \<open>Cleanup\<close>

text \<open>\<open>endo_callback\<close> with the callback data of the pressed button.\<close>

definition endo_callback :: "string \<Rightarrow> db \<Rightarrow> db" where
  "endo_callback data s =
     (if data = ''confirm_endo''
      then let c1 = execute (\<lambda>w. w\<lparr>items := filter (\<lambda>i. status i \<notin> {Sold, Ended, Rejected, Cancelled})
                                                  (items w)\<rparr>) (get_db_connection s);
               c2 = execute (\<lambda>w. w\<lparr>bids := filter (\<lambda>b. b_item_id b \<in> set (map item_id (items w)))
                                                 (bids w)\<rparr>) c1
           in close (commit c2)
      else s)"


section \<open>Example stores\<close>

text \<open>Concrete rows and stores on which the theorems below are instantiated.\<close>

definition seller1 :: tg_user where
  "seller1 = \<lparr>tg_id = 1, tg_username = Some ''bob'', tg_first_name = ''Bob''\<rparr>"

definition bidder7 :: tg_user where
  "bidder7 = \<lparr>tg_id = 7, tg_username = None, tg_first_name = ''Ann''\<rparr>"

definition item_A0001 :: item where
  "item_A0001 =
     \<lparr>item_id = ''A0001'', user_id = 1, username = Some ''bob'', first_name = ''Bob'',
      item_type = ''pokemon'', name = Some ''Pikachu'', tm_number = None, tm_name = None,
      base_price = 25000, status = Approved,
      highest_bid = None, highest_bidder_id = None, highest_bidder_name = None\<rparr>"

definition item_B0002 :: item where
  "item_B0002 =
     \<lparr>item_id = ''B0002'', user_id = 1, username = Some ''bob'', first_name = ''Bob'',
      item_type = ''pokemon'', name = Some ''Mew'', tm_number = None, tm_name = None,
      base_price = 60000, status = Approved,
      highest_bid = Some 65000, highest_bidder_id = Some 9, highest_bidder_name = Some ''Cy''\<rparr>"

definition row7 :: user_row where
  "row7 = \<lparr>u_user_id = 7, u_username = None, u_first_name = ''Ann'', is_banned = 0,
           submissions_count = 0, approved_count = 0, rejected_count = 0, bids_count = 3\<rparr>"

text \<open>Bidding open, two approved items, no user rows.\<close>

definition store_open :: db where
  "store_open = \<lparr>items = [item_A0001, item_B0002], users = [], bids = [],
                  submissions_open = True, bidding_open = True\<rparr>"

text \<open>The same with a row for user 7, not banned.\<close>

definition store_known :: db where
  "store_known = store_open\<lparr>users := [row7]\<rparr>"

text \<open>The same with user 7 banned.\<close>

definition store_banned :: db where
  "store_banned = store_open\<lparr>users := [row7\<lparr>is_banned := 1\<rparr>]\<rparr>"

definition attempt7 :: "int \<Rightarrow> attempt" where
  "attempt7 amt = \<lparr>a_fault = NoFault, a_now = ''t'', a_user = bidder7, a_item = ''A0001'',
                   a_amount = amt\<rparr>"

text \<open>A TM item (no \<open>name\<close>) and a Pok\'emon item, both approved and with a bid of
  user 7; a sold item and a pending one.\<close>

definition item_C0003 :: item where
  "item_C0003 =
     \<lparr>item_id = ''C0003'', user_id = 1, username = Some ''bob'', first_name = ''Bob'',
      item_type = ''tm'', name = None, tm_number = Some 26, tm_name = Some ''Earthquake'',
      base_price = 10000, status = Approved,
      highest_bid = Some 11000, highest_bidder_id = Some 7, highest_bidder_name = Some ''Ann''\<rparr>"

definition item_D0004 :: item where
  "item_D0004 =
     \<lparr>item_id = ''D0004'', user_id = 1, username = Some ''bob'', first_name = ''Bob'',
      item_type = ''pokemon'', name = Some ''Eevee'', tm_number = None, tm_name = None,
      base_price = 10000, status = Approved,
      highest_bid = Some 12000, highest_bidder_id = Some 7, highest_bidder_name = Some ''Ann''\<rparr>"

definition item_S0005 :: item where
  "item_S0005 = item_D0004\<lparr>item_id := ''S0005'', status := Sold\<rparr>"

definition item_P0006 :: item where
  "item_P0006 = item_A0001\<lparr>item_id := ''P0006'', status := Pending\<rparr>"

definition bid_on :: "string \<Rightarrow> int \<Rightarrow> bid_row" where
  "bid_on iid amt = \<lparr>b_item_id = iid, b_user_id = 7, b_username = None,
                     b_first_name = ''Ann'', b_amount = amt, b_bid_time = ''t''\<rparr>"

text \<open>Bidding open; the TM item comes before the Pok\'emon item; item A0001 has no bid.\<close>

definition store_closing :: db where
  "store_closing = \<lparr>items = [item_C0003, item_D0004, item_A0001], users = [row7],
                     bids = [bid_on ''C0003'' 11000, bid_on ''D0004'' 12000],
                     submissions_open = False, bidding_open = True\<rparr>"

text \<open>The same without the TM item.\<close>

definition store_named :: db where
  "store_named = store_closing\<lparr>items := [item_D0004, item_A0001],
                               bids := [bid_on ''D0004'' 12000]\<rparr>"

text \<open>A store to clean up: an approved, a sold and a pending item, a bid on each of the
  first two.\<close>

definition store_cleanup :: db where
  "store_cleanup = \<lparr>items = [item_D0004, item_S0005, item_P0006], users = [row7],
                     bids = [bid_on ''D0004'' 12000, bid_on ''S0005'' 12000],
                     submissions_open = False, bidding_open = False\<rparr>"

text \<open>Two outcomes of the random draw, \<open>A0001\<close> and \<open>C0003\<close>, and the data of a
  TM submission.\<close>

definition draw_A0001 :: draw where
  "draw_A0001 = \<lparr>letter = 0, digit1 = 0, digit2 = 0, digit3 = 0, digit4 = 1\<rparr>"

definition draw_C0003 :: draw where
  "draw_C0003 = \<lparr>letter = 2, digit1 = 0, digit2 = 0, digit3 = 0, digit4 = 3\<rparr>"

definition tm_data :: user_data where
  "tm_data = \<lparr>d_item_type = ''tm'', d_name = [], d_tm_number = 26,
               d_tm_name = ''Earthquake'', d_base_price = 10000\<rparr>"

definition store_empty :: db where
  "store_empty = \<lparr>items = [], users = [], bids = [],
                   submissions_open = False, bidding_open = False\<rparr>"

text \<open>The store that the handlers themselves produce when, after \<open>starto\<close>, user 1
  submits a TM, an admin approves it and user 7 bids 11000 on it.\<close>

definition store_tm_auction :: db where
  "store_tm_auction =
     fst (bid NoFault ''t''
            (fst (admin_approval_callback 5816482345 ''approve'' ''C0003''
                    (fst (complete_submission draw_C0003 (starto store_empty) seller1 tm_data))))
            bidder7 ''C0003'' 11000)"

section \<open>Properties of the bid handler\<close>

subsection \<open>The unit of work\<close>

lemma bid_unit_Inl:
  "bid_unit f iid usr amt now (get_db_connection s) = Inl c \<Longrightarrow>
     f \<noteq> NoFault \<and> close (rollback c) =
       (if f = PostCommitFails
        then bump_bids_count (tg_id usr) (insert_bid iid usr amt now (update_item_bid iid usr amt s))
        else s)"
  by (cases f) (auto simp: bid_unit_def get_db_connection_def execute_def commit_def
      rollback_def close_def Let_def split: if_splits)

lemma bid_unit_Inr:
  "bid_unit f iid usr amt now (get_db_connection s) = Inr c \<Longrightarrow>
     f = NoFault \<and> close c =
       bump_bids_count (tg_id usr) (insert_bid iid usr amt now (update_item_bid iid usr amt s))"
  by (cases f) (auto simp: bid_unit_def get_db_connection_def execute_def commit_def
      rollback_def close_def Let_def split: if_splits)

text \<open>A call of \<open>bid\<close> leaves the file as it was, or with all three writes applied;
  the second only after every check has passed.\<close>

lemma bid_store:
  "fst (bid f now s usr iid amt) = s \<or>
   (\<exists>it. 0 < amt \<and> bidding_open s \<and> \<not> banned s (tg_id usr) \<and> approved_item s iid = Some it
      \<and> tg_id usr \<noteq> user_id it \<and> current_bid it + increment (current_bid it) \<le> amt
      \<and> (f = NoFault \<or> f = PostCommitFails)
      \<and> fst (bid f now s usr iid amt) =
          bump_bids_count (tg_id usr) (insert_bid iid usr amt now (update_item_bid iid usr amt s)))"
  by (auto simp: bid_def split: option.splits sum.splits dest!: bid_unit_Inl bid_unit_Inr)

lemma increment_pos: "0 < increment p"
  by (simp add: increment_def)

subsection \<open>The increment tiers\<close>

text \<open>
  Claim C1, as the handler implements it. Once a bid has reached the price check (valid
  amount, bidding open, bidder not banned, approved item of another user), with \<open>p\<close> the
  current price before the bid and \<open>i\<close> the increment of the tier of \<open>p\<close> (5000 from
  50000, 2000 from 20000, else 1000): the bid is accepted exactly when
  \<open>amt \<ge> p + i\<close>; a bid with \<open>p < amt < p + i\<close> is rejected with the minimum
  \<open>p + i\<close>; a bid with \<open>amt \<le> p\<close> is rejected with a message that reports the
  current price \<open>p\<close> only. A rejected bid leaves the store as it was.
\<close>

theorem bid_tier_rule:
  assumes "0 < amt" and "bidding_open s" and "\<not> banned s (tg_id usr)"
    and "approved_item s iid = Some it" and "tg_id usr \<noteq> user_id it"
  shows "let p = current_bid it;
             i = (if 50000 \<le> p then 5000 else if 20000 \<le> p then 2000 else 1000)
         in snd (bid f now s usr iid amt) =
              (if amt \<le> p then BidNotHigher p
               else if amt < p + i then BidTooLow i (p + i)
               else if f = NoFault then BidPlaced amt else BidProcessingFailed)
            \<and> (amt < p + i \<longrightarrow> fst (bid f now s usr iid amt) = s)"
  using assms
  by (auto simp: bid_def increment_def Let_def split: sum.splits dest: bid_unit_Inl bid_unit_Inr)

text \<open>The examples of the specification: at price 25000 a bid of 26500 is refused with
  minimum 27000 and a bid of 27000 is taken; at price 65000 a bid of 66000 is refused with
  minimum 70000.\<close>

theorem bid_tier_rule_witness:
  "bid NoFault ''t'' store_open bidder7 ''A0001'' 26500 = (store_open, BidTooLow 2000 27000)
   \<and> snd (bid NoFault ''t'' store_open bidder7 ''A0001'' 27000) = BidPlaced 27000
   \<and> bid NoFault ''t'' store_open bidder7 ''B0002'' 66000 = (store_open, BidTooLow 5000 70000)"
proof -
  have a: "approved_item store_open ''A0001'' = Some item_A0001"
    and b: "approved_item store_open ''B0002'' = Some item_B0002"
    by (simp_all add: approved_item_def store_open_def item_A0001_def item_B0002_def)
  have nb: "\<not> banned store_open (tg_id bidder7)" and op: "bidding_open store_open"
    by (simp_all add: banned_def store_open_def)
  have o: "tg_id bidder7 \<noteq> user_id item_A0001" "tg_id bidder7 \<noteq> user_id item_B0002"
    by (simp_all add: bidder7_def item_A0001_def item_B0002_def)
  have pa: "current_bid item_A0001 = 25000" and pb: "current_bid item_B0002 = 65000"
    by (simp_all add: current_bid_def item_A0001_def item_B0002_def)
  show ?thesis
    using bid_tier_rule [OF _ op nb a o(1), of 26500 NoFault "''t''"]
          bid_tier_rule [OF _ op nb a o(1), of 27000 NoFault "''t''"]
          bid_tier_rule [OF _ op nb b o(2), of 66000 NoFault "''t''"]
    by (simp add: pa pb Let_def prod_eq_iff)
qed

text \<open>Claim C1 as written says that a rejected bid reports the minimum \<open>p + i\<close>. At
  price 25000 a bid of 24000 is rejected with the current price 25000 instead.\<close>

theorem bid_not_higher_counterexample:
  "bid NoFault ''t'' store_open bidder7 ''A0001'' 24000 = (store_open, BidNotHigher 25000)
   \<and> snd (bid NoFault ''t'' store_open bidder7 ''A0001'' 24000) \<noteq> BidTooLow 2000 27000"
  by (simp add: bid_def store_open_def bidder7_def item_A0001_def item_B0002_def banned_def
      approved_item_def current_bid_def)

subsection \<open>The order of the checks\<close>

text \<open>
  Claim C4. For a bid attempt whose amount passed the argument validation
  (\<open>amt > 0\<close>), the checks run in the order: bidding open, bidder not banned, item exists
  with status approved, bidder is not the owner, amount meets the tier minimum. The first
  check that fails decides the reply, each check has a reply of its own, and the store is
  left as it was. In particular a banned bidder is told so whatever the item and however
  large the amount.
\<close>

theorem bid_check_order:
  assumes "0 < amt"
  shows "(\<not> bidding_open s \<longrightarrow> bid f now s usr iid amt = (s, BiddingClosed))
    \<and> (bidding_open s \<and> banned s (tg_id usr) \<longrightarrow> bid f now s usr iid amt = (s, BidderBanned))
    \<and> (bidding_open s \<and> \<not> banned s (tg_id usr)
         \<and> (\<forall>i \<in> set (items s). item_id i = iid \<longrightarrow> status i \<noteq> Approved)
        \<longrightarrow> bid f now s usr iid amt = (s, ItemNotBiddable))
    \<and> (\<forall>it. bidding_open s \<and> \<not> banned s (tg_id usr) \<and> approved_item s iid = Some it
           \<and> tg_id usr = user_id it
        \<longrightarrow> bid f now s usr iid amt = (s, SelfBidForbidden))
    \<and> (\<forall>it. bidding_open s \<and> \<not> banned s (tg_id usr) \<and> approved_item s iid = Some it
           \<and> tg_id usr \<noteq> user_id it \<and> amt < current_bid it + increment (current_bid it)
        \<longrightarrow> bid f now s usr iid amt =
              (s, if amt \<le> current_bid it then BidNotHigher (current_bid it)
                  else BidTooLow (increment (current_bid it))
                                 (current_bid it + increment (current_bid it))))"
proof -
  have none: "(\<forall>i \<in> set (items s). item_id i = iid \<longrightarrow> status i \<noteq> Approved)
               \<Longrightarrow> approved_item s iid = None"
    by (auto simp: approved_item_def find_None_iff)
  show ?thesis
    using assms none by (auto simp: bid_def)
qed

text \<open>A banned bidder with an amount that would qualify, and the same bid after the
  bidding has been closed.\<close>

theorem bid_check_order_witness:
  "bid NoFault ''t'' store_banned bidder7 ''A0001'' 27000 = (store_banned, BidderBanned)
   \<and> bid NoFault ''t'' (store_banned\<lparr>bidding_open := False\<rparr>) bidder7 ''A0001'' 27000
       = (store_banned\<lparr>bidding_open := False\<rparr>, BiddingClosed)"
proof -
  have b: "banned store_banned (tg_id bidder7)" and op: "bidding_open store_banned"
    by (simp_all add: banned_def store_banned_def store_open_def row7_def bidder7_def)
  show ?thesis
    using bid_check_order [of 27000 store_banned NoFault "''t''" bidder7 "''A0001''"]
          bid_check_order [of 27000 "store_banned\<lparr>bidding_open := False\<rparr>" NoFault "''t''"
                              bidder7 "''A0001''"]
          b op
    by simp
qed

subsection \<open>Bidding on one's own item\<close>

text \<open>
  Claim C8. A bid on an approved item by its owner never changes the store and is never
  placed, whatever the amount; when it reaches the ownership check (valid amount, bidding
  open, owner not banned) the reply is the self-bid failure, however large the amount.
\<close>

theorem self_bid_forbidden:
  assumes "approved_item s iid = Some it" and "tg_id usr = user_id it"
  shows "fst (bid f now s usr iid amt) = s
    \<and> snd (bid f now s usr iid amt) \<noteq> BidPlaced amt
    \<and> (0 < amt \<and> bidding_open s \<and> \<not> banned s (tg_id usr)
        \<longrightarrow> bid f now s usr iid amt = (s, SelfBidForbidden))"
  using assms by (simp add: bid_def)

theorem self_bid_forbidden_witness:
  "approved_item store_open ''A0001'' = Some item_A0001
   \<and> tg_id seller1 = user_id item_A0001
   \<and> bid NoFault ''t'' store_open seller1 ''A0001'' 1000000000 = (store_open, SelfBidForbidden)"
proof -
  have a: "approved_item store_open ''A0001'' = Some item_A0001"
    by (simp add: approved_item_def store_open_def item_A0001_def item_B0002_def)
  have o: "tg_id seller1 = user_id item_A0001"
    by (simp add: seller1_def item_A0001_def)
  have g: "bidding_open store_open" "\<not> banned store_open (tg_id seller1)"
    by (simp_all add: banned_def store_open_def)
  show ?thesis
    using self_bid_forbidden [OF a o, of NoFault "''t''" 1000000000] a o g by simp
qed

subsection \<open>A bidder without a users row\<close>

text \<open>
  Claim C10. A bidder who has no row in the users table is treated as not banned: the
  reply is never the ban failure, and a bid that got as far as the ban check (valid
  amount, bidding open) goes on to the item check, which alone decides whether it fails
  as not biddable.
\<close>

theorem unknown_bidder_not_banned:
  assumes "\<forall>u \<in> set (users s). u_user_id u \<noteq> tg_id usr"
  shows "\<not> banned s (tg_id usr)
    \<and> snd (bid f now s usr iid amt) \<noteq> BidderBanned
    \<and> (0 < amt \<and> bidding_open s
        \<longrightarrow> (snd (bid f now s usr iid amt) = ItemNotBiddable) = (approved_item s iid = None))"
proof -
  have "find (\<lambda>u. u_user_id u = tg_id usr) (users s) = None"
    using assms by (auto simp: find_None_iff)
  then have nb: "\<not> banned s (tg_id usr)" by (simp add: banned_def)
  then show ?thesis
    by (auto simp: bid_def split: option.splits sum.splits)
qed

text \<open>User 7 has no row in \<open>store_open\<close>: a bid on an id that no item has fails at
  the item check, and a qualifying bid on an approved item is placed.\<close>

theorem unknown_bidder_not_banned_witness:
  "users store_open = []
   \<and> \<not> banned store_open (tg_id bidder7)
   \<and> snd (bid NoFault ''t'' store_open bidder7 ''Z9999'' 27000) = ItemNotBiddable
   \<and> snd (bid NoFault ''t'' store_open bidder7 ''A0001'' 27000) \<noteq> ItemNotBiddable"
proof -
  have u: "\<forall>u \<in> set (users store_open). u_user_id u \<noteq> tg_id bidder7"
    by (simp add: store_open_def)
  have n: "approved_item store_open ''Z9999'' = None"
    and a: "approved_item store_open ''A0001'' = Some item_A0001"
    by (simp_all add: approved_item_def store_open_def item_A0001_def item_B0002_def)
  have op: "bidding_open store_open" "users store_open = []"
    by (simp_all add: store_open_def)
  show ?thesis
    using unknown_bidder_not_banned [OF u, of NoFault "''t''" "''Z9999''" 27000]
          unknown_bidder_not_banned [OF u, of NoFault "''t''" "''A0001''" 27000]
          n a op
    by simp
qed

subsection \<open>All three writes, or none\<close>

text \<open>
  Claim C3. For a bid that has passed every check, the handler either commits the three
  writes together (the item's \<open>highest_bid\<close>, \<open>highest_bidder_id\<close> and
  \<open>highest_bidder_name\<close>; one new row at the end of the bid history; \<open>bids_count + 1\<close>
  in the bidder's users row) or, when a storage call of the unit raises, rolls back,
  replies with the generic failure and leaves the store exactly as it was. No other
  store is ever left behind.
\<close>

theorem bid_unit_atomic:
  assumes "0 < amt" and "bidding_open s" and "\<not> banned s (tg_id usr)"
    and "approved_item s iid = Some it" and "tg_id usr \<noteq> user_id it"
    and "current_bid it + increment (current_bid it) \<le> amt"
  shows "bid f now s usr iid amt =
     (if f = NoFault \<or> f = PostCommitFails
      then (s\<lparr>items := map (\<lambda>i. if item_id i = iid
                                 then i\<lparr>highest_bid := Some amt,
                                        highest_bidder_id := Some (tg_id usr),
                                        highest_bidder_name := Some (tg_first_name usr)\<rparr>
                                 else i) (items s),
              bids := bids s @ [\<lparr>b_item_id = iid, b_user_id = tg_id usr,
                                 b_username = tg_username usr,
                                 b_first_name = tg_first_name usr,
                                 b_amount = amt, b_bid_time = now\<rparr>],
              users := map (\<lambda>u. if u_user_id u = tg_id usr
                                 then u\<lparr>bids_count := bids_count u + 1\<rparr> else u) (users s)\<rparr>,
            if f = NoFault then BidPlaced amt else BidProcessingFailed)
      else (s, BidProcessingFailed))"
proof -
  have inc: "0 < increment (current_bid it)" by (rule increment_pos)
  have chk: "\<not> amt \<le> current_bid it" "\<not> amt < current_bid it + increment (current_bid it)"
    using assms(6) inc by simp_all
  show ?thesis
    using assms(1-5) chk
    by (cases f) (simp_all add: bid_def bid_unit_def get_db_connection_def execute_def commit_def
        rollback_def close_def Let_def bump_bids_count_def insert_bid_def update_item_bid_def)
qed

text \<open>User 7 bids 27000 on item A0001: without a fault the three writes are in the
  store; when the insert into the bid history raises, nothing is.\<close>

theorem bid_unit_atomic_witness:
  "bid NoFault ''t'' store_known bidder7 ''A0001'' 27000 =
     (store_known\<lparr>items := [item_A0001\<lparr>highest_bid := Some 27000, highest_bidder_id := Some 7,
                                       highest_bidder_name := Some ''Ann''\<rparr>, item_B0002],
                  bids := [\<lparr>b_item_id = ''A0001'', b_user_id = 7, b_username = None,
                            b_first_name = ''Ann'', b_amount = 27000, b_bid_time = ''t''\<rparr>],
                  users := [row7\<lparr>bids_count := 4\<rparr>]\<rparr>, BidPlaced 27000)
   \<and> bid InsertBidFails ''t'' store_known bidder7 ''A0001'' 27000
       = (store_known, BidProcessingFailed)"
proof -
  have a: "approved_item store_known ''A0001'' = Some item_A0001"
    by (simp add: approved_item_def store_known_def store_open_def item_A0001_def item_B0002_def)
  have nb: "\<not> banned store_known (tg_id bidder7)" and op: "bidding_open store_known"
    by (simp_all add: banned_def store_known_def store_open_def row7_def bidder7_def)
  have o: "tg_id bidder7 \<noteq> user_id item_A0001"
    by (simp add: bidder7_def item_A0001_def)
  have p: "current_bid item_A0001 + increment (current_bid item_A0001) \<le> 27000"
    by (simp add: current_bid_def increment_def item_A0001_def)
  have i: "items store_known = [item_A0001, item_B0002]" "bids store_known = []"
    "users store_known = [row7]"
    by (simp_all add: store_known_def store_open_def)
  have k: "item_id item_A0001 = ''A0001''" "item_id item_B0002 = ''B0002''"
    "u_user_id row7 = 7" "bids_count row7 = 3"
    "tg_id bidder7 = 7" "tg_username bidder7 = None" "tg_first_name bidder7 = ''Ann''"
    by (simp_all add: item_A0001_def item_B0002_def row7_def bidder7_def)
  show ?thesis
    using bid_unit_atomic [OF _ op nb a o p, of NoFault "''t''"]
          bid_unit_atomic [OF _ op nb a o p, of InsertBidFails "''t''"]
    by (simp add: i k)
qed

subsection \<open>The highest bid only rises\<close>

lemma items_written:
  "items (bump_bids_count u (insert_bid iid usr amt now (update_item_bid iid usr amt s))) =
     map (\<lambda>i. if item_id i = iid
               then i\<lparr>highest_bid := Some amt, highest_bidder_id := Some (tg_id usr),
                      highest_bidder_name := Some (tg_first_name usr)\<rparr>
               else i) (items s)"
  by (simp add: bump_bids_count_def insert_bid_def update_item_bid_def)

lemma find_map_same_key:
  assumes "\<And>x. key (g x) = key x"
  shows "find (\<lambda>x. key x = k) (map g xs) = map_option g (find (\<lambda>x. key x = k) xs)"
  using assms by (induction xs) auto

lemma find_unique:
  assumes "distinct (map key xs)" and "find P xs = Some a" and "find Q xs = Some b"
    and "key a = key b"
  shows "a = b"
proof -
  have "a \<in> set xs" "b \<in> set xs"
    using assms(2,3) by (auto simp: find_Some_iff)
  moreover have "inj_on key (set xs)"
    using assms(1) by (simp add: distinct_map)
  ultimately show ?thesis using assms(4) by (auto dest: inj_onD)
qed

text \<open>A bid never adds, removes or renames an item.\<close>

lemma bid_item_ids: "map item_id (items (fst (bid f now s usr iid amt))) = map item_id (items s)"
  using bid_store [of f now s usr iid amt]
  by (auto simp: items_written comp_def intro!: map_idI [symmetric])

text \<open>What one call does to the row with key \<open>k\<close>: it stays as it is, or its
  \<open>highest_bid\<close> becomes the amount, which then exceeds the price before the bid.\<close>

lemma bid_item_step:
  assumes pk: "primary_key s" and it: "item_by_id s k = Some it"
  shows "\<exists>it'. item_by_id (fst (bid f now s usr iid amt)) k = Some it'
           \<and> base_price it' = base_price it
           \<and> (it' = it \<or> (highest_bid it' = Some amt \<and> current_bid it < amt \<and> 0 < amt))"
proof -
  consider (same) "fst (bid f now s usr iid amt) = s"
    | (written) it0 where "0 < amt" "approved_item s iid = Some it0"
        "current_bid it0 + increment (current_bid it0) \<le> amt"
        "fst (bid f now s usr iid amt) =
          bump_bids_count (tg_id usr) (insert_bid iid usr amt now (update_item_bid iid usr amt s))"
    using bid_store [of f now s usr iid amt] by blast
  then show ?thesis
  proof cases
    case same
    then show ?thesis using it by simp
  next
    case written
    let ?g = "\<lambda>i. if item_id i = iid
               then i\<lparr>highest_bid := Some amt, highest_bidder_id := Some (tg_id usr),
                      highest_bidder_name := Some (tg_first_name usr)\<rparr>
               else i"
    have key: "\<And>x. item_id (?g x) = item_id x" by simp
    have look: "item_by_id (fst (bid f now s usr iid amt)) k = Some (?g it)"
      using it unfolding item_by_id_def written(4) items_written
      by (subst find_map_same_key [of item_id ?g, OF key]) simp
    show ?thesis
    proof (cases "k = iid")
      case False
      have "item_id it = k" using it by (auto simp: item_by_id_def find_Some_iff)
      then have "?g it = it" using False by simp
      then show ?thesis using look by simp
    next
      case True
      have k: "item_id it = iid" using it True by (auto simp: item_by_id_def find_Some_iff)
      have k0: "item_id it0 = iid" using written(2) by (auto simp: approved_item_def find_Some_iff)
      have "it0 = it"
        using find_unique [of item_id "items s" _ it0 _ it] pk written(2) it k k0
        unfolding primary_key_def approved_item_def item_by_id_def by blast
      then have "current_bid it < amt"
        using written(3) increment_pos [of "current_bid it"] by simp
      then show ?thesis using look k written(1) by simp
    qed
  qed
qed

lemma current_bid_ge_base:
  "\<forall>h. highest_bid it = Some h \<longrightarrow> base_price it < h \<Longrightarrow> base_price it \<le> current_bid it"
  by (auto simp: current_bid_def split: option.splits)

lemma current_bid_above_old:
  "current_bid it < amt \<Longrightarrow> 0 < amt \<Longrightarrow> highest_bid it = Some h \<Longrightarrow> h < amt"
  by (auto simp: current_bid_def split: if_splits)

text \<open>
  Claim C2. Take a store whose items have distinct ids and an item whose
  \<open>highest_bid\<close>, if it has one, is above its \<open>base_price\<close> (a new item has none).
  Over any sequence of bid attempts, by any users on any items, with any faults, the
  values that the item's \<open>highest_bid\<close> takes form a strictly increasing sequence,
  and each of them is above the \<open>base_price\<close> and above the highest bid the item
  started with.
\<close>

theorem highest_bid_strictly_increasing:
  assumes "primary_key s" and "item_by_id s iid = Some it"
    and "\<forall>h. highest_bid it = Some h \<longrightarrow> base_price it < h"
  shows "sorted_wrt (<) (highest_bid_values iid s as)
         \<and> (\<forall>v \<in> set (highest_bid_values iid s as).
               base_price it < v \<and> (\<forall>h. highest_bid it = Some h \<longrightarrow> h < v))"
  using assms
proof (induction as arbitrary: s it)
  case Nil
  then show ?case by simp
next
  case (Cons a as)
  let ?s' = "fst (place s a)"
  obtain it' where it': "item_by_id ?s' iid = Some it'" "base_price it' = base_price it"
    and alt: "it' = it \<or> (highest_bid it' = Some (a_amount a) \<and> current_bid it < a_amount a
                \<and> 0 < a_amount a)"
    using bid_item_step [OF Cons.prems(1,2)] unfolding place_def by blast
  have pk': "primary_key ?s'"
    using Cons.prems(1) by (simp add: primary_key_def place_def bid_item_ids)
  have base: "base_price it \<le> current_bid it"
    using current_bid_ge_base [OF Cons.prems(3)] .
  have inv': "\<forall>h. highest_bid it' = Some h \<longrightarrow> base_price it' < h"
    using alt Cons.prems(3) it'(2) base by auto
  note IH = Cons.IH [OF pk' it'(1) inv']
  have hb: "highest_bid_of s iid = highest_bid it" "highest_bid_of ?s' iid = highest_bid it'"
    using Cons.prems(2) it'(1) by (simp_all add: highest_bid_of_def)
  from alt show ?case
  proof
    assume "it' = it"
    then show ?thesis using IH hb by (simp add: Let_def)
  next
    assume w: "highest_bid it' = Some (a_amount a) \<and> current_bid it < a_amount a
                \<and> 0 < a_amount a"
    then have old: "\<forall>h. highest_bid it = Some h \<longrightarrow> h < a_amount a"
      using current_bid_above_old by blast
    have tail: "\<forall>v \<in> set (highest_bid_values iid ?s' as). a_amount a < v \<and> base_price it < v"
      using IH w it'(2) by simp
    have tail_old: "\<forall>v \<in> set (highest_bid_values iid ?s' as).
                      \<forall>h. highest_bid it = Some h \<longrightarrow> h < v"
      using tail old by fastforce
    have new: "base_price it < a_amount a" using base w by simp
    show ?thesis
      using IH tail tail_old old new w hb by (auto simp: Let_def)
  qed
qed

text \<open>User 7 bids 26500, 27000, 28000 and 30000 on item A0001 (base price 25000, no
  bid yet): the second and the fourth bid are taken, and the highest bid goes 27000,
  30000.\<close>

theorem highest_bid_strictly_increasing_witness:
  "primary_key store_open
   \<and> item_by_id store_open ''A0001'' = Some item_A0001
   \<and> highest_bid item_A0001 = None
   \<and> highest_bid_values ''A0001'' store_open
        [attempt7 26500, attempt7 27000, attempt7 28000, attempt7 30000] = [27000, 30000]
   \<and> sorted_wrt (<) (highest_bid_values ''A0001'' store_open
        [attempt7 26500, attempt7 27000, attempt7 28000, attempt7 30000])"
proof -
  have pk: "primary_key store_open"
    by (simp add: primary_key_def store_open_def item_A0001_def item_B0002_def)
  have it: "item_by_id store_open ''A0001'' = Some item_A0001"
    by (simp add: item_by_id_def store_open_def item_A0001_def)
  have hb: "highest_bid item_A0001 = None"
    by (simp add: item_A0001_def)
  have inv: "\<forall>h. highest_bid item_A0001 = Some h \<longrightarrow> base_price item_A0001 < h"
    using hb by simp
  have vals: "highest_bid_values ''A0001'' store_open
        [attempt7 26500, attempt7 27000, attempt7 28000, attempt7 30000] = [27000, 30000]"
    by (simp add: place_def bid_def bid_unit_def attempt7_def store_open_def bidder7_def
        item_A0001_def item_B0002_def banned_def approved_item_def current_bid_def
        increment_def highest_bid_of_def item_by_id_def get_db_connection_def execute_def
        commit_def close_def update_item_bid_def insert_bid_def bump_bids_count_def Let_def)
  show ?thesis
    using highest_bid_strictly_increasing [OF pk it inv,
        of "[attempt7 26500, attempt7 27000, attempt7 28000, attempt7 30000]"]
      pk it hb vals
    by simp
qed

section \<open>Properties of the cleanup\<close>

lemma live_status: "(st \<notin> {Sold, Ended, Rejected, Cancelled}) = (st = Pending \<or> st = Approved)"
  by (cases st) simp_all

text \<open>
  Claim C7. A confirmed cleanup keeps exactly the pending and the approved items, each
  as it was and in the same order, and deletes the items whose status is sold, ended,
  rejected or cancelled; it keeps exactly the bid rows whose item id is the id of an item
  that is kept, each as it was, and deletes the others; the users table and the two phase
  flags are untouched.
\<close>

theorem cleanup_exact:
  "items (endo_callback ''confirm_endo'' s) =
      filter (\<lambda>i. status i = Pending \<or> status i = Approved) (items s)
   \<and> bids (endo_callback ''confirm_endo'' s) =
      filter (\<lambda>b. \<exists>i \<in> set (items s). item_id i = b_item_id b
                       \<and> (status i = Pending \<or> status i = Approved)) (bids s)
   \<and> (\<forall>i \<in> set (items s). (i \<in> set (items (endo_callback ''confirm_endo'' s)))
           = (status i \<notin> {Sold, Ended, Rejected, Cancelled}))
   \<and> users (endo_callback ''confirm_endo'' s) = users s
   \<and> submissions_open (endo_callback ''confirm_endo'' s) = submissions_open s
   \<and> bidding_open (endo_callback ''confirm_endo'' s) = bidding_open s"
proof -
  let ?s' = "endo_callback ''confirm_endo'' s"
  have live: "\<And>i::item. (status i \<noteq> Sold \<and> status i \<noteq> Ended \<and> status i \<noteq> Rejected
                   \<and> status i \<noteq> Cancelled) = (status i = Pending \<or> status i = Approved)"
    using live_status by simp
  have I: "items ?s' = filter (\<lambda>i. status i = Pending \<or> status i = Approved) (items s)"
    by (simp add: endo_callback_def get_db_connection_def execute_def commit_def close_def
        Let_def live)
  have B: "bids ?s' = filter (\<lambda>b. b_item_id b \<in> item_id ` set (items ?s')) (bids s)"
    by (simp add: endo_callback_def get_db_connection_def execute_def commit_def close_def
        Let_def)
  have B': "bids ?s' = filter (\<lambda>b. \<exists>i \<in> set (items s). item_id i = b_item_id b
                       \<and> (status i = Pending \<or> status i = Approved)) (bids s)"
    unfolding B I by (rule filter_cong) (force simp: image_iff)+
  have M: "\<forall>i \<in> set (items s). (i \<in> set (items ?s'))
           = (status i \<notin> {Sold, Ended, Rejected, Cancelled})"
    unfolding I by (simp add: live)
  have R: "users ?s' = users s" "submissions_open ?s' = submissions_open s"
    "bidding_open ?s' = bidding_open s"
    by (simp_all add: endo_callback_def get_db_connection_def execute_def commit_def close_def
        Let_def)
  show ?thesis using I B' M R by blast
qed

text \<open>In \<open>store_cleanup\<close> the sold item S0005 and the bid on it go; the approved
  item, the pending item and the bid on the approved item stay.\<close>

theorem cleanup_exact_witness:
  "endo_callback ''confirm_endo'' store_cleanup =
     store_cleanup\<lparr>items := [item_D0004, item_P0006], bids := [bid_on ''D0004'' 12000]\<rparr>"
proof -
  have i: "items store_cleanup = [item_D0004, item_S0005, item_P0006]"
    and b: "bids store_cleanup = [bid_on ''D0004'' 12000, bid_on ''S0005'' 12000]"
    by (simp_all add: store_cleanup_def)
  have st: "status item_D0004 = Approved" "status item_S0005 = Sold" "status item_P0006 = Pending"
    "item_id item_D0004 = ''D0004''" "item_id item_S0005 = ''S0005''" "item_id item_P0006 = ''P0006''"
    by (simp_all add: item_D0004_def item_S0005_def item_P0006_def item_A0001_def)
  have k: "b_item_id (bid_on ''D0004'' 12000) = ''D0004''" "b_item_id (bid_on ''S0005'' 12000) = ''S0005''"
    by (simp_all add: bid_on_def)
  show ?thesis
    using cleanup_exact [of store_cleanup]
    by (simp add: i b st k db.equality)
qed

text \<open>Any other callback data (the cancel button) changes nothing.\<close>

lemma cleanup_cancelled: "data \<noteq> ''confirm_endo'' \<Longrightarrow> endo_callback data s = s"
  by (simp add: endo_callback_def)

section \<open>Properties of the submission\<close>

lemma generate_item_id_format:
  "length (generate_item_id r) = 5
   \<and> hd (generate_item_id r) \<in> set ascii_uppercase
   \<and> set (tl (generate_item_id r)) \<subseteq> set digits"
proof -
  have u: "ascii_uppercase ! (letter r mod 26) \<in> set ascii_uppercase"
    by (rule nth_mem) (simp add: ascii_uppercase_def)
  have d: "\<And>k. digits ! (k mod 10) \<in> set digits"
    by (rule nth_mem) (simp add: digits_def)
  show ?thesis using u d by (simp add: generate_item_id_def)
qed

lemma items_after_user_statements:
  "items (working (execute (bump_submissions_count usr)
            (execute (insert_or_ignore_user usr) (get_db_connection s)))) = items s"
  by (simp add: execute_def get_db_connection_def bump_submissions_count_def
      insert_or_ignore_user_def split: option.splits)

text \<open>
  Claim C6, as the handler implements it. The item id, one upper-case letter followed
  by four digits, is drawn once and is not compared with the ids in the store. When the
  drawn id is the id of an item already in the table, the insert is refused: the
  submission ends with the integrity error, no item is created and the store is as it
  was. Otherwise the new item is added at the end of the table under the drawn id. So
  a store whose item ids are distinct keeps them distinct.
\<close>

theorem complete_submission_keeps_ids_distinct:
  "(generate_item_id r \<in> item_id ` set (items s)
      \<longrightarrow> complete_submission r s usr d = (s, IntegrityError (generate_item_id r)))
   \<and> (generate_item_id r \<notin> item_id ` set (items s)
      \<longrightarrow> snd (complete_submission r s usr d) = Submitted (generate_item_id r)
          \<and> items (fst (complete_submission r s usr d))
              = items s @ [new_item (generate_item_id r) usr d])
   \<and> (primary_key s \<longrightarrow> primary_key (fst (complete_submission r s usr d)))
   \<and> length (generate_item_id r) = 5
   \<and> hd (generate_item_id r) \<in> set ascii_uppercase
   \<and> set (tl (generate_item_id r)) \<subseteq> set digits"
proof -
  let ?c2 = "execute (bump_submissions_count usr)
              (execute (insert_or_ignore_user usr) (get_db_connection s))"
  have w: "items (working ?c2) = items s" by (rule items_after_user_statements)
  have c: "committed ?c2 = s" by (simp add: execute_def get_db_connection_def)
  have hit: "generate_item_id r \<in> item_id ` set (items s)
      \<longrightarrow> complete_submission r s usr d = (s, IntegrityError (generate_item_id r))"
    using w c by (simp add: complete_submission_def Let_def close_def)
  have miss: "generate_item_id r \<notin> item_id ` set (items s)
      \<longrightarrow> snd (complete_submission r s usr d) = Submitted (generate_item_id r)
          \<and> items (fst (complete_submission r s usr d))
              = items s @ [new_item (generate_item_id r) usr d]"
    using w by (simp add: complete_submission_def Let_def close_def commit_def execute_def)
  have nid: "item_id (new_item (generate_item_id r) usr d) = generate_item_id r"
    by (simp add: new_item_def)
  have pk: "primary_key s \<longrightarrow> primary_key (fst (complete_submission r s usr d))"
  proof (cases "generate_item_id r \<in> item_id ` set (items s)")
    case True
    then show ?thesis using hit by simp
  next
    case False
    then show ?thesis using miss nid by (simp add: primary_key_def)
  qed
  show ?thesis using hit miss pk generate_item_id_format [of r] by blast
qed

text \<open>In \<open>store_open\<close>, whose items are A0001 and B0002, the draw C0003 gives a new
  pending item and the draw A0001 is refused.\<close>

theorem complete_submission_keeps_ids_distinct_witness:
  "primary_key store_open
   \<and> generate_item_id draw_C0003 = ''C0003''
   \<and> snd (complete_submission draw_C0003 store_open seller1 tm_data) = Submitted ''C0003''
   \<and> map item_id (items (fst (complete_submission draw_C0003 store_open seller1 tm_data)))
       = [''A0001'', ''B0002'', ''C0003'']
   \<and> primary_key (fst (complete_submission draw_C0003 store_open seller1 tm_data))
   \<and> generate_item_id draw_A0001 = ''A0001''
   \<and> complete_submission draw_A0001 store_open seller1 tm_data
       = (store_open, IntegrityError ''A0001'')"
proof -
  have g: "generate_item_id draw_C0003 = ''C0003''" "generate_item_id draw_A0001 = ''A0001''"
    by (simp_all add: generate_item_id_def draw_C0003_def draw_A0001_def ascii_uppercase_def
        digits_def)
  have i: "map item_id (items store_open) = [''A0001'', ''B0002'']"
    by (simp add: store_open_def item_A0001_def item_B0002_def)
  have s: "item_id ` set (items store_open) = {''A0001'', ''B0002''}"
    using i by (metis list.set_map list.simps(15) empty_set)
  have pk: "primary_key store_open"
    by (simp add: primary_key_def i)
  have n: "item_id (new_item ''C0003'' seller1 tm_data) = ''C0003''"
    by (simp add: new_item_def)
  show ?thesis
    using complete_submission_keeps_ids_distinct [of draw_C0003 store_open seller1 tm_data]
          complete_submission_keeps_ids_distinct [of draw_A0001 store_open seller1 tm_data]
          pk
    by (simp add: g i s n)
qed

text \<open>Claim C6 as written says that on a collision the id is generated again until it
  is free. The draw A0001 collides with an item of \<open>store_open\<close>: no second id is
  drawn, the submission fails and the user's item is not stored.\<close>

theorem complete_submission_collision_counterexample:
  "generate_item_id draw_A0001 \<in> item_id ` set (items store_open)
   \<and> complete_submission draw_A0001 store_open bidder7 tm_data
       = (store_open, IntegrityError ''A0001'')"
  by (simp add: complete_submission_def generate_item_id_def draw_A0001_def ascii_uppercase_def
      digits_def store_open_def item_A0001_def item_B0002_def get_db_connection_def
      execute_def close_def insert_or_ignore_user_def bump_submissions_count_def Let_def)

section \<open>Properties of closing the bidding\<close>

text \<open>The rows that the loop reaches: those before the first row without a name.\<close>

lemma bido_loop_items:
  "items (fst (bido_loop sf rows s lg)) =
     map (\<lambda>i. if item_id i \<in> r_item_id ` set (takeWhile (\<lambda>r. truthy (r_name r)) rows)
               then i\<lparr>status := Sold\<rparr> else i) (items s)"
proof (induction rows arbitrary: s lg)
  case Nil
  show ?case by (simp add: map_idI)
next
  case (Cons r rows)
  show ?case
  proof (cases "truthy (r_name r)")
    case False
    then show ?thesis by (simp add: map_idI)
  next
    case True
    then show ?thesis
      by (auto simp: Cons.IH Let_def mark_sold_def)
  qed
qed

lemma bido_loop_ending:
  "snd (snd (bido_loop sf rows s lg)) =
     (if \<forall>r \<in> set rows. truthy (r_name r) then Completed else Raised ''IndexError'')"
  by (induction rows arbitrary: s lg) (simp_all add: Let_def)

lemma bido_loop_rest:
  "users (fst (bido_loop sf rows s lg)) = users s
   \<and> bids (fst (bido_loop sf rows s lg)) = bids s
   \<and> submissions_open (fst (bido_loop sf rows s lg)) = submissions_open s
   \<and> bidding_open (fst (bido_loop sf rows s lg)) = bidding_open s"
  by (induction rows arbitrary: s lg) (simp_all add: Let_def mark_sold_def)

text \<open>Whether the transport delivers the sellers' notices has no influence on the
  store that the loop leaves behind or on how the handler ends.\<close>

lemma bido_loop_seller_independent:
  "fst (bido_loop sf rows s lg) = fst (bido_loop sf' rows s lg')
   \<and> snd (snd (bido_loop sf rows s lg)) = snd (snd (bido_loop sf' rows s lg'))"
  by (induction rows arbitrary: s lg lg') (simp_all add: Let_def)

lemma bido_seller_independent:
  "fst (bido sf s) = fst (bido sf' s) \<and> snd (snd (bido sf s)) = snd (snd (bido sf' s))"
  unfolding bido_def Let_def by (rule bido_loop_seller_independent)

text \<open>When every fetched row has a name, the handler completes, every approved item
  with a bidder is sold, and the bidding is closed.\<close>

lemma bido_named_items_sold:
  assumes "\<forall>i \<in> set (items s). status i = Approved \<and> highest_bidder_id i \<noteq> None
             \<longrightarrow> truthy (name i)"
  shows "snd (snd (bido sf s)) = Completed
    \<and> \<not> bidding_open (fst (bido sf s))
    \<and> items (fst (bido sf s)) =
        map (\<lambda>i. if item_id i \<in> item_id ` {j \<in> set (items s). status j = Approved
                                                \<and> highest_bidder_id j \<noteq> None}
                  then i\<lparr>status := Sold\<rparr> else i) (items s)"
proof -
  let ?rows = "closing_rows (s\<lparr>bidding_open := False\<rparr>)"
  have all: "\<forall>r \<in> set ?rows. truthy (r_name r)"
    using assms by (auto simp: closing_rows_def)
  then have tw: "takeWhile (\<lambda>r. truthy (r_name r)) ?rows = ?rows"
    by simp
  have ids: "r_item_id ` set ?rows
      = item_id ` {j \<in> set (items s). status j = Approved \<and> highest_bidder_id j \<noteq> None}"
    by (force simp: closing_rows_def image_iff)
  have b: "bido sf s = bido_loop sf ?rows (s\<lparr>bidding_open := False\<rparr>) []"
    by (simp add: bido_def Let_def execute_def get_db_connection_def commit_def close_def)
  show ?thesis
    unfolding b bido_loop_items bido_loop_ending tw ids
    using all bido_loop_rest [of sf ?rows "s\<lparr>bidding_open := False\<rparr>" "[]"] by simp
qed

text \<open>An approved item without a bidder is never touched by the handler, whatever the
  other items are (item ids being distinct).\<close>

lemma bido_keeps_unbid_items:
  assumes "primary_key s" and "i \<in> set (items s)" and "highest_bidder_id i = None"
  shows "i \<in> set (items (fst (bido sf s)))"
proof -
  let ?rows = "closing_rows (s\<lparr>bidding_open := False\<rparr>)"
  have b: "bido sf s = bido_loop sf ?rows (s\<lparr>bidding_open := False\<rparr>) []"
    by (simp add: bido_def Let_def execute_def get_db_connection_def commit_def close_def)
  have inj: "inj_on item_id (set (items s))"
    using assms(1) by (simp add: primary_key_def distinct_map)
  have "item_id i \<notin> r_item_id ` set (takeWhile (\<lambda>r. truthy (r_name r)) ?rows)"
  proof
    assume "item_id i \<in> r_item_id ` set (takeWhile (\<lambda>r. truthy (r_name r)) ?rows)"
    then obtain r where "r \<in> set ?rows" "r_item_id r = item_id i"
      by (auto dest: set_takeWhileD)
    then obtain j where j: "j \<in> set (items s)" "highest_bidder_id j \<noteq> None"
        "item_id j = item_id i"
      by (auto simp: closing_rows_def)
    then have "j = i" using inj assms(2) by (auto dest: inj_onD)
    then show False using j(2) assms(3) by simp
  qed
  then have "i \<in> (\<lambda>i. if item_id i \<in> r_item_id ` set (takeWhile (\<lambda>r. truthy (r_name r)) ?rows)
               then i\<lparr>status := Sold\<rparr> else i) ` set (items s)"
    using assms(2) by (force simp: image_iff)
  then show ?thesis
    unfolding b bido_loop_items by simp
qed

text \<open>
  Claim C5 against the code. The claim says that closing the bidding turns every
  approved item with a bidder into a sold item. \<open>store_tm_auction\<close> is what the
  handlers produce from the empty store when a TM is submitted, approved and bid on; its
  one item is approved and has user 7 as highest bidder. In \<open>bido\<close> the row of a TM
  has no \<open>name\<close>, the fallback reads \<open>item['tm_number']\<close>, which the \<open>SELECT\<close> did
  not fetch, and the handler ends with an \<open>IndexError\<close> before the update: the bidding
  is closed and the item is still approved.
\<close>

theorem bido_tm_item_stays_approved:
  "snd (complete_submission draw_C0003 (starto store_empty) seller1 tm_data) = Submitted ''C0003''
   \<and> map item_id (items store_tm_auction) = [''C0003'']
   \<and> map status (items store_tm_auction) = [Approved]
   \<and> map highest_bidder_id (items store_tm_auction) = [Some 7]
   \<and> bido (\<lambda>_. False) store_tm_auction
        = (store_tm_auction\<lparr>bidding_open := False\<rparr>, [], Raised ''IndexError'')
   \<and> map status (items (fst (bido (\<lambda>_. False) store_tm_auction))) = [Approved]"
proof -
  have g: "generate_item_id draw_C0003 = ''C0003''"
    by (simp add: generate_item_id_def draw_C0003_def ascii_uppercase_def digits_def)
  have s2: "complete_submission draw_C0003 (starto store_empty) seller1 tm_data =
      (\<lparr>items = [new_item ''C0003'' seller1 tm_data],
        users = [\<lparr>u_user_id = 1, u_username = Some ''bob'', u_first_name = ''Bob'',
                  is_banned = 0, submissions_count = 1, approved_count = 0,
                  rejected_count = 0, bids_count = 0\<rparr>],
        bids = [], submissions_open = True, bidding_open = True\<rparr>, Submitted ''C0003'')"
    by (simp add: complete_submission_def g starto_def store_empty_def seller1_def
        get_db_connection_def execute_def commit_def close_def insert_or_ignore_user_def
        bump_submissions_count_def Let_def)
  have st: "store_tm_auction =
      \<lparr>items = [item_C0003],
        users = [\<lparr>u_user_id = 1, u_username = Some ''bob'', u_first_name = ''Bob'',
                  is_banned = 0, submissions_count = 1, approved_count = 1,
                  rejected_count = 0, bids_count = 0\<rparr>],
        bids = [bid_on ''C0003'' 11000], submissions_open = True, bidding_open = True\<rparr>"
    unfolding store_tm_auction_def s2
    by (simp add: admin_approval_callback_def is_admin_def ADMIN_IDS_def item_by_id_def
        new_item_def tm_data_def seller1_def bidder7_def bid_def banned_def approved_item_def
        current_bid_def increment_def bid_unit_def get_db_connection_def execute_def
        commit_def close_def update_item_bid_def insert_bid_def bump_bids_count_def
        item_C0003_def bid_on_def Let_def)
  have run: "bido (\<lambda>_. False) store_tm_auction
        = (store_tm_auction\<lparr>bidding_open := False\<rparr>, [], Raised ''IndexError'')"
    unfolding st
    by (simp add: bido_def closing_rows_def truthy_def item_C0003_def get_db_connection_def
        execute_def commit_def close_def Let_def)
  show ?thesis
    unfolding run using s2 by (simp add: st item_C0003_def)
qed

text \<open>
  Claim C9 against the code. The claim says that a fault on one item never keeps the
  remaining items with bids from being sold. In \<open>store_closing\<close> the TM item C0003
  comes before the Pok\'emon item D0004, both approved and with a bid. Building the text
  of the notices for C0003 raises \<open>IndexError\<close> outside the two \<open>try\<close> blocks;
  nothing is logged, the loop is left, and D0004, which nothing is wrong with, is not
  sold either. Without the TM item the same handler sells D0004, although both notices
  for it fail and are logged.
\<close>

theorem bido_fault_blocks_later_items:
  "map item_id (items store_closing) = [''C0003'', ''D0004'', ''A0001'']
   \<and> bido (\<lambda>_. False) store_closing
        = (store_closing\<lparr>bidding_open := False\<rparr>, [], Raised ''IndexError'')
   \<and> map status (items (fst (bido (\<lambda>_. False) store_closing))) = [Approved, Approved, Approved]
   \<and> bido (\<lambda>_. True) store_named
        = (store_named\<lparr>items := [item_D0004\<lparr>status := Sold\<rparr>, item_A0001],
                        bidding_open := False\<rparr>,
           [ErrorNotifyingWinner ''D0004'', ErrorNotifyingSeller ''D0004''], Completed)"
  by (simp add: bido_def closing_rows_def truthy_def mark_sold_def store_closing_def
      store_named_def item_C0003_def item_D0004_def item_A0001_def get_db_connection_def
      execute_def commit_def close_def Let_def)

end
